theory Spec2Isabelle
  imports Complex_Main "HOL-Library.Multiset"
begin

section \<open>The analysis engine of skilledenough (services/analyzer.ts)\<close>

text \<open>
  The engine is the class \<open>SkillAnalyzer\<close>. Its methods are embedded as HOL functions.
  Conventions of the embedding:
  \<^item> a JavaScript \<open>number\<close> that counts things (stars, forks, bytes, days) is an \<open>int\<close> or a
    \<open>nat\<close>; a \<open>number\<close> that is the result of a division is a \<open>rat\<close>, i.e. the floating
    point arithmetic of the source is read as exact arithmetic;
  \<^item> a timestamp string of the source (\<open>updated_at\<close>, \<open>created_at\<close>) is represented by the
    integer \<open>new Date(s).getTime()\<close>, the milliseconds since the epoch; the strings of the
    GitHub API are well-formed ISO timestamps, so that this integer exists;
  \<^item> every \<open>new Date()\<close> of the source reads the wall clock. The readings are the fields
    of the record \<open>clock\<close>, which every function that reads the clock takes as its first
    argument;
  \<^item> a \<open>Set\<close> or \<open>Map\<close> of the source is a list in insertion order, as \<open>Array.from\<close> and
    \<open>forEach\<close> enumerate it;
  \<^item> strings are \<open>string\<close>, with \<open>toLowerCase\<close> acting on the ASCII letters.
\<close>

subsection \<open>Numbers\<close>

text \<open>\<open>Math.round\<close>: the nearest integer, a half rounded towards plus infinity.\<close>

definition Math_round :: "rat \<Rightarrow> int" where
  "Math_round x = \<lfloor>x + 1 / 2\<rfloor>"

text \<open>A \<open>number\<close> that may be \<open>NaN\<close> (the result of \<open>0 / 0\<close>).\<close>

datatype jsnum = Num rat | NaN

subsection \<open>Data model (types/github.ts and analyzer.ts)\<close>

record clock =
  now :: int  \<comment> \<open>\<open>new Date().getTime()\<close>\<close>
  recentCutoff :: int  \<comment> \<open>\<open>now\<close> moved back twelve calendar months by \<open>setMonth\<close>\<close>
  sixMonthsAgo :: int  \<comment> \<open>\<open>now\<close> moved back six calendar months by \<open>setMonth\<close>\<close>

record RepositoryWithLanguages =
  name :: string
  description :: "string option"
  language :: "string option"
  stargazers_count :: int
  forks_count :: int
  updated_at :: int
  created_at :: int
  html_url :: string
  topics :: "string list"
  languageStats :: "(string \<times> nat) list option"

record GitHubUser =
  login :: string
  user_name :: string
  bio :: string
  public_repos :: int
  followers :: int
  following :: int
  user_created_at :: int
  avatar_url :: string
  user_html_url :: string

record TechStack =
  primary :: "string list"
  secondary :: "string list"
  frameworks :: "string list"
  tools :: "string list"

record StackDepth =
  core :: "string list"
  supporting :: "string list"
  emerging :: "string list"

record LanguageShare =
  share_language :: string  \<comment> \<open>the field \<open>language\<close> of an entry of \<open>topLanguages\<close>\<close>
  percentage :: jsnum

datatype ExperienceLevel = Beginner | Intermediate | Advanced | Expert

record SkillAnalysis =
  techStack :: TechStack
  topLanguages :: "LanguageShare list"
  experienceLevel :: ExperienceLevel
  totalProjects :: nat
  activeProjects :: nat
  accountAge :: rat
  stackDepth :: StackDepth

text \<open>The fields of a highlight that share a name with a repository field carry the prefix \<open>h_\<close>.\<close>

record RepositoryHighlight =
  h_name :: string
  h_description :: "string option"
  stars :: int
  forks :: int
  primaryLanguage :: "string option"
  lastUpdated :: int
  createdAt :: int
  h_topics :: "string list"
  url :: string
  reason :: string

record ActivityMetrics =
  recentPushes :: int
  activeLast30Days :: int
  activeLast90Days :: int
  medianUpdateInterval :: int
  longestQuietStreak :: int
  velocityScore :: int

datatype Testing = TestingStrong | TestingModerate | TestingSparse

datatype Automation = AutomationAdvanced | AutomationBasic | AutomationNone

datatype Documentation = DocumentationComprehensive | DocumentationModerate | DocumentationSparse

datatype ReleaseCadence = Weekly | Biweekly | Monthly | Quarterly | AdHoc

record QualitySignals =
  testing :: Testing
  automation :: Automation
  documentation :: Documentation
  releaseCadence :: ReleaseCadence
  quality_notes :: "string list"  \<comment> \<open>the field \<open>notes\<close>\<close>

datatype MarketDemand = Low | Medium | High | VeryHigh

record FuturePrediction =
  growthAreas :: "string list"
  skillsToLearn :: "string list"
  careerPath :: "string list"
  marketDemand :: MarketDemand

subsection \<open>Strings, sets and maps of the source\<close>

text \<open>\<open>String.prototype.toLowerCase\<close>, on the ASCII letters.\<close>

definition toLowerChar :: "char \<Rightarrow> char" where
  "toLowerChar c =
     (case map_of (zip ''ABCDEFGHIJKLMNOPQRSTUVWXYZ'' ''abcdefghijklmnopqrstuvwxyz'') c of
        Some l \<Rightarrow> l
      | None \<Rightarrow> c)"

definition toLowerCase :: "string \<Rightarrow> string" where
  "toLowerCase s = map toLowerChar s"

text \<open>\<open>s.includes(k)\<close> (the name \<open>includes\<close> is reserved): \<open>k\<close> occurs in \<open>s\<close> as a contiguous substring.\<close>

fun includesStr :: "string \<Rightarrow> string \<Rightarrow> bool" where
  "includesStr [] k = (k = [])"
| "includesStr (c # cs) k = (take (length k) (c # cs) = k \<or> includesStr cs k)"

text \<open>\<open>parts.join(sep)\<close>.\<close>

fun joinWith :: "string list \<Rightarrow> string \<Rightarrow> string" where
  "joinWith [] sep = []"
| "joinWith [x] sep = x"
| "joinWith (x # y # ys) sep = x @ sep @ joinWith (y # ys) sep"

text \<open>\<open>set.add(x)\<close> on a \<open>Set\<close> kept in insertion order, and \<open>new Set(values)\<close>.\<close>

definition setAdd :: "'a list \<Rightarrow> 'a \<Rightarrow> 'a list" where
  "setAdd s x = (if x \<in> set s then s else s @ [x])"

definition setFrom :: "'a list \<Rightarrow> 'a list" where
  "setFrom values = foldl setAdd [] values"

text \<open>
  \<open>m[key] = (m[key] || 0) + n\<close> on an object, and \<open>m.set(key, (m.get(key) || 0) + n)\<close> on a
  \<open>Map\<close>, both enumerated in insertion order: a present key keeps its place, a new key is
  appended. (An object enumerates keys that are array indices first and inherits the keys of
  \<open>Object.prototype\<close>; language names are neither.)
\<close>

fun addTo :: "(string \<times> nat) list \<Rightarrow> string \<Rightarrow> nat \<Rightarrow> (string \<times> nat) list" where
  "addTo [] key n = [(key, n)]"
| "addTo ((k, v) # rest) key n =
     (if k = key then (k, v + n) # rest else (k, v) # addTo rest key n)"

text \<open>\<open>xs[i]\<close>, which is \<open>undefined\<close> out of range.\<close>

definition nthOpt :: "'a list \<Rightarrow> nat \<Rightarrow> 'a option" where
  "nthOpt xs i = (if i < length xs then Some (xs ! i) else None)"

subsection \<open>Lexicon tables\<close>

definition frameworkKeywords :: "(string \<times> string list) list" where
  "frameworkKeywords =
    [(''React'', [''react'', ''reactjs'']),
     (''Next.js'', [''next.js'', ''nextjs'']),
     (''Gatsby'', [''gatsby'']),
     (''Angular'', [''angular'', ''@angular'']),
     (''Vue'', [''vue'', ''vuejs'']),
     (''Nuxt.js'', [''nuxt'']),
     (''Vite'', [''vite'']),
     (''Django'', [''django'']),
     (''Flask'', [''flask'']),
     (''FastAPI'', [''fastapi'']),
     (''Express'', [''express'', ''expressjs'']),
     (''NestJS'', [''nestjs'', ''@nestjs'']),
     (''Spring'', [''spring'', ''springboot'', ''spring-boot'']),
     (''Laravel'', [''laravel'']),
     (''Rails'', [''rails'', ''ruby-on-rails'']),
     (''ASP.NET'', [''asp.net'', ''aspnet'']),
     (''Flutter'', [''flutter'']),
     (''React Native'', [''react-native'']),
     (''TensorFlow'', [''tensorflow'']),
     (''PyTorch'', [''pytorch'']),
     (''Kubernetes'', [''kubernetes'', ''k8s'']),
     (''Docker'', [''docker'']),
     (''AWS'', [''aws'', ''amazon-web-services'']),
     (''Azure'', [''azure'']),
     (''GCP'', [''gcp'', ''google-cloud'']),
     (''MongoDB'', [''mongodb'', ''mongo'']),
     (''PostgreSQL'', [''postgresql'', ''postgres'']),
     (''MySQL'', [''mysql'']),
     (''Redis'', [''redis'']),
     (''Node'', [''node.js'', ''nodejs'']),
     (''GraphQL'', [''graphql'']),
     (''Tailwind'', [''tailwind'', ''tailwindcss'']),
     (''Bootstrap'', [''bootstrap'']),
     (''Material-UI'', [''material-ui'', ''mui''])]"

definition stackPatterns :: "(string \<times> string list) list" where
  "stackPatterns =
    [(''MERN'', [''MongoDB'', ''Express'', ''React'', ''Node'']),
     (''MEAN'', [''MongoDB'', ''Express'', ''Angular'', ''Node'']),
     (''MEVN'', [''MongoDB'', ''Express'', ''Vue'', ''Node'']),
     (''PERN'', [''PostgreSQL'', ''Express'', ''React'', ''Node'']),
     (''LAMP'', [''Linux'', ''Apache'', ''MySQL'', ''PHP'']),
     (''Django Stack'', [''Django'', ''PostgreSQL'', ''Python'']),
     (''Rails Stack'', [''Rails'', ''PostgreSQL'', ''Ruby'']),
     (''JAMstack'', [''JavaScript'', ''API'', ''Markup'']),
     (''T3 Stack'', [''TypeScript'', ''tRPC'', ''Tailwind'', ''Next.js''])]"

subsection \<open>Text Matcher\<close>

text \<open>
  \<open>[...(repo.topics || []), repo.description || '', repo.name || ''].join(' ').toLowerCase()\<close>
\<close>

definition searchText :: "RepositoryWithLanguages \<Rightarrow> string" where
  "searchText repo =
     toLowerCase
       (joinWith (topics repo @ [case description repo of None \<Rightarrow> [] | Some d \<Rightarrow> d, name repo])
          '' '')"

text \<open>\<open>keywords.some((keyword) => searchText.includes(keyword))\<close>\<close>

definition matchesAny :: "string \<Rightarrow> string list \<Rightarrow> bool" where
  "matchesAny text keywords = list_ex (\<lambda>keyword. includesStr text keyword) keywords"

subsection \<open>Skill Aggregator: \<open>analyzeSkills\<close>\<close>

text \<open>
  The four accumulators of \<open>analyzeSkills\<close> that the loop over the repositories updates.
  The sets \<open>frameworks\<close> and \<open>tools\<close> are the fields \<open>frameworkSet\<close> and \<open>toolSet\<close>.
\<close>

record SkillScan =
  languageTotals :: "(string \<times> nat) list"
  frameworkSet :: "string list"
  toolSet :: "string list"
  detectedTech :: "string list"

definition detectFramework :: "string \<Rightarrow> SkillScan \<Rightarrow> string \<times> string list \<Rightarrow> SkillScan" where
  "detectFramework text st entry =
     (case entry of (framework, keywords) \<Rightarrow>
        if matchesAny text keywords
        then st\<lparr>frameworkSet := setAdd (frameworkSet st) framework,
                detectedTech := setAdd (detectedTech st) framework\<rparr>
        else st)"

definition addTool :: "string \<Rightarrow> bool \<Rightarrow> SkillScan \<Rightarrow> SkillScan" where
  "addTool tool alsoDetected st =
     (if alsoDetected then st\<lparr>toolSet := setAdd (toolSet st) tool, detectedTech := setAdd (detectedTech st) tool\<rparr>
      else st\<lparr>toolSet := setAdd (toolSet st) tool\<rparr>)"

text \<open>The body of \<open>repos.forEach((repo) => ...)\<close> in \<open>analyzeSkills\<close>.\<close>

definition scanRepo :: "SkillScan \<Rightarrow> RepositoryWithLanguages \<Rightarrow> SkillScan" where
  "scanRepo st repo =
     (let st1 = (case languageStats repo of
                   None \<Rightarrow> st
                 | Some stats \<Rightarrow>
                     st\<lparr>languageTotals :=
                          foldl (\<lambda>totals (lang, bytes). addTo totals lang bytes) (languageTotals st) stats\<rparr>);
          text = searchText repo;
          st2 = foldl (detectFramework text) st1 frameworkKeywords;
          st3 = (if includesStr text ''docker'' then addTool ''Docker'' True st2 else st2);
          st4 = (if includesStr text ''kubernetes'' \<or> includesStr text ''k8s''
                 then addTool ''Kubernetes'' True st3 else st3);
          st5 = (if includesStr text ''git'' then addTool ''Git'' False st4 else st4);
          st6 = (if includesStr text ''ci/cd'' \<or> includesStr text ''github-actions''
                 then addTool ''CI/CD'' False st5 else st5);
          st7 = (if includesStr text ''terraform'' then addTool ''Terraform'' True st6 else st6);
          st8 = (if includesStr text ''ansible'' then addTool ''Ansible'' False st7 else st7)
      in st8)"

definition scanRepos :: "RepositoryWithLanguages list \<Rightarrow> SkillScan" where
  "scanRepos repos =
     foldl scanRepo \<lparr>languageTotals = [], frameworkSet = [], toolSet = [], detectedTech = []\<rparr> repos"

text \<open>\<open>Object.values(languageTotals).reduce((a, b) => a + b, 0)\<close>\<close>

definition totalBytes :: "(string \<times> nat) list \<Rightarrow> nat" where
  "totalBytes totals = foldl (+) 0 (map snd totals)"

text \<open>
  \<open>(bytes / totalBytes) * 100\<close>. Byte counts are natural numbers, so a total of 0 means
  that every count is 0, and every quotient is \<open>0 / 0\<close>, which is \<open>NaN\<close>.
\<close>

definition percentageOf :: "nat \<Rightarrow> nat \<Rightarrow> jsnum" where
  "percentageOf bytes allBytes =
     (if allBytes = 0 then NaN else Num (of_nat bytes / of_nat allBytes * 100))"

text \<open>
  The comparator \<open>(a, b) => b.percentage - a.percentage\<close> of the stable sort orders the
  entries by descending percentage. On \<open>NaN\<close> it returns \<open>NaN\<close>, which the sort reads as
  0 (equal); within one list either every percentage is \<open>NaN\<close> or none is.
\<close>

definition descendingKey :: "jsnum \<Rightarrow> rat" where
  "descendingKey p = (case p of Num q \<Rightarrow> - q | NaN \<Rightarrow> 0)"

definition rankedLanguages :: "(string \<times> nat) list \<Rightarrow> LanguageShare list" where
  "rankedLanguages totals =
     sort_key (\<lambda>entry. descendingKey (percentage entry))
       (map (\<lambda>(lang, bytes). \<lparr>share_language = lang, percentage = percentageOf bytes (totalBytes totals)\<rparr>)
          totals)"

definition topLanguagesOf :: "RepositoryWithLanguages list \<Rightarrow> LanguageShare list" where
  "topLanguagesOf repos = take 10 (rankedLanguages (languageTotals (scanRepos repos)))"

text \<open>
  The set \<open>detectedTech\<close> as \<open>detectFullStacks\<close> receives it: the loop's result, then
  \<open>topLanguages.slice(0, 5).forEach(lang => detectedTech.add(lang.language))\<close>.
\<close>

definition detectedTechOf :: "RepositoryWithLanguages list \<Rightarrow> string list" where
  "detectedTechOf repos =
     foldl setAdd (detectedTech (scanRepos repos)) (map share_language (take 5 (topLanguagesOf repos)))"

definition patternMatches :: "string list \<Rightarrow> string list \<Rightarrow> string list" where
  "patternMatches techArray components =
     filter (\<lambda>comp. list_ex (\<lambda>tech. includesStr tech (toLowerCase comp) \<or> includesStr (toLowerCase comp) tech)
                       techArray)
       components"

definition detectPattern :: "string list \<Rightarrow> string list \<Rightarrow> string \<times> string list \<Rightarrow> string list" where
  "detectPattern techArray stacks entry =
     (case entry of (stackName, components) \<Rightarrow>
        let matches = patternMatches techArray components;
            threshold = (if length components \<ge> 4 then 3 else 2 :: nat)
        in if length matches \<ge> threshold then stacks @ [stackName] else stacks)"

definition detectFullStacks :: "string list \<Rightarrow> string list" where
  "detectFullStacks detected =
     (let has = (\<lambda>tech. tech \<in> set detected);
          techArray = map toLowerCase detected;
          s0 = foldl (detectPattern techArray) [] stackPatterns;
          s1 = (if has ''React''
                then (if has ''Vite'' then s0 @ [''React + Vite'']
                      else if has ''Next.js'' then s0 @ [''Next.js''] else s0)
                else s0);
          s2 = (if has ''Vue'' \<and> has ''Vite'' then s1 @ [''Vue + Vite''] else s1);
          s3 = (if has ''Angular'' then s2 @ [''Angular''] else s2);
          s4 = (if has ''Node'' \<or> has ''Express''
                then (if has ''TypeScript'' then s3 @ [''Node.js + TypeScript'']
                      else s3 @ [''Node.js + Express''])
                else s3);
          s5 = (if has ''Django'' then s4 @ [''Django''] else s4);
          s6 = (if has ''Spring'' then s5 @ [''Spring Boot''] else s5);
          hasReact = (has ''React'' \<or> has ''Next.js'');
          hasNode = (has ''Node'' \<or> has ''Express'');
          hasMongo = has ''MongoDB'';
          hasPostgres = has ''PostgreSQL'';
          s7 = (if hasReact \<and> hasNode \<and> ''MERN'' \<notin> set s6 \<and> ''PERN'' \<notin> set s6
                then (if hasMongo then s6 @ [''MERN Stack'']
                      else if hasPostgres then s6 @ [''PERN Stack''] else s6)
                else s6)
      in take 4 s7)"

subsection \<open>Stack depth: \<open>deriveStackDepth\<close>\<close>

record UsageScan =
  frameworkUsage :: "(string \<times> nat) list"
  recentFrameworks :: "string list"

definition countFramework ::
  "clock \<Rightarrow> RepositoryWithLanguages \<Rightarrow> UsageScan \<Rightarrow> string \<times> string list \<Rightarrow> UsageScan" where
  "countFramework clk repo u entry =
     (case entry of (framework, keywords) \<Rightarrow>
        if matchesAny (searchText repo) keywords
        then \<lparr>frameworkUsage = addTo (frameworkUsage u) framework 1,
              recentFrameworks = (if updated_at repo \<ge> recentCutoff clk
                                  then setAdd (recentFrameworks u) framework
                                  else recentFrameworks u)\<rparr>
        else u)"

definition usageScan :: "clock \<Rightarrow> RepositoryWithLanguages list \<Rightarrow> UsageScan" where
  "usageScan clk repos =
     foldl (\<lambda>u repo. foldl (countFramework clk repo) u frameworkKeywords)
       \<lparr>frameworkUsage = [], recentFrameworks = []\<rparr> repos"

text \<open>\<open>frameworkUsage.forEach((count, framework) => ...)\<close> on the pair of \<open>core\<close> and \<open>supporting\<close>.\<close>

definition promote :: "string list \<times> string list \<Rightarrow> string \<times> nat \<Rightarrow> string list \<times> string list" where
  "promote cs entry =
     (case (cs, entry) of ((coreSet, supportingSet), (framework, uses)) \<Rightarrow>
        if uses \<ge> 2 then (setAdd coreSet framework, supportingSet)
        else (coreSet, setAdd supportingSet framework))"

definition supportsIfAbsent :: "string \<Rightarrow> string list \<Rightarrow> string list \<Rightarrow> string list" where
  "supportsIfAbsent v coreSet supportingSet =
     (if v \<notin> set coreSet then setAdd supportingSet v else supportingSet)"

definition emergeFramework :: "string list \<Rightarrow> string list \<Rightarrow> string list \<Rightarrow> string \<Rightarrow> string list" where
  "emergeFramework coreSet supportingSet emergingSet framework =
     (if framework \<notin> set coreSet \<and> framework \<notin> set supportingSet
      then setAdd emergingSet framework else emergingSet)"

definition emergeLanguage ::
  "clock \<Rightarrow> string list \<Rightarrow> string list \<Rightarrow> string list \<Rightarrow> RepositoryWithLanguages \<Rightarrow> string list" where
  "emergeLanguage clk coreSet supportingSet emergingSet repo =
     (let updatedRecently = (updated_at repo \<ge> recentCutoff clk \<or> created_at repo \<ge> recentCutoff clk)
      in case language repo of
           None \<Rightarrow> emergingSet
         | Some lang \<Rightarrow>
             if \<not> updatedRecently \<or> lang = [] then emergingSet
             else if lang \<notin> set coreSet \<and> lang \<notin> set supportingSet
                  then setAdd emergingSet lang else emergingSet)"

definition deriveStackDepth :: "clock \<Rightarrow> TechStack \<Rightarrow> RepositoryWithLanguages list \<Rightarrow> StackDepth" where
  "deriveStackDepth clk stack repos =
     (let core0 = setFrom (take 4 (primary stack));
          usage = usageScan clk repos;
          (core1, supporting1) = foldl promote (core0, []) (frameworkUsage usage);
          supporting2 = foldl (\<lambda>s item. supportsIfAbsent item core1 s) supporting1 (secondary stack);
          supporting3 = foldl (\<lambda>s tool. supportsIfAbsent tool core1 s) supporting2 (tools stack);
          emerging1 = foldl (emergeFramework core1 supporting3) [] (recentFrameworks usage);
          emerging2 = foldl (emergeLanguage clk core1 supporting3) emerging1 repos
      in \<lparr>core = core1,
          supporting = filter (\<lambda>item. item \<notin> set core1) supporting3,
          emerging = emerging2\<rparr>)"

subsection \<open>Experience level\<close>

definition calculateAccountAge :: "clock \<Rightarrow> int \<Rightarrow> rat" where
  "calculateAccountAge clk created =
     (let years = of_int (now clk - created) / of_int (1000 * 60 * 60 * 24 * 365)
      in of_int (Math_round (years * 10)) / 10)"

definition isRecentlyActive :: "clock \<Rightarrow> int \<Rightarrow> bool" where
  "isRecentlyActive clk updatedAt = (updatedAt > sixMonthsAgo clk)"

text \<open>\<open>x >= y\<close> on numbers: false when \<open>x\<close> is \<open>NaN\<close>.\<close>

definition jsGe :: "jsnum \<Rightarrow> rat \<Rightarrow> bool" where
  "jsGe x y = (case x of Num q \<Rightarrow> y \<le> q | NaN \<Rightarrow> False)"

definition determineExperienceLevel :: "rat \<Rightarrow> nat \<Rightarrow> nat \<Rightarrow> jsnum \<Rightarrow> ExperienceLevel" where
  "determineExperienceLevel age projects active avgStars =
     (let s1 = (if age \<ge> 7 then 4 else if age \<ge> 5 then 3 else if age \<ge> 3 then 2
                else if age \<ge> 1 then 1 else 0 :: nat);
          s2 = s1 + (if projects \<ge> 100 then 4 else if projects \<ge> 50 then 3 else if projects \<ge> 20 then 2
                     else if projects \<ge> 10 then 1 else 0);
          s3 = s2 + (if active \<ge> 20 then 3 else if active \<ge> 10 then 2 else if active \<ge> 5 then 1 else 0);
          score = s3 + (if jsGe avgStars 100 then 4 else if jsGe avgStars 50 then 3
                        else if jsGe avgStars 20 then 2 else if jsGe avgStars 5 then 1 else 0)
      in if score \<ge> 12 then Expert else if score \<ge> 9 then Advanced
         else if score \<ge> 6 then Intermediate else Beginner)"

text \<open>
  \<open>analyzeSkills\<close>. The average \<open>sum / repos.length\<close> of the star counts is \<open>0 / 0\<close>, that is
  \<open>NaN\<close>, for the empty list.
\<close>

definition analyzeSkills :: "clock \<Rightarrow> GitHubUser \<Rightarrow> RepositoryWithLanguages list \<Rightarrow> SkillAnalysis" where
  "analyzeSkills clk user repos =
     (let scan = scanRepos repos;
          topLangs = topLanguagesOf repos;
          detectedStacks = detectFullStacks (detectedTechOf repos);
          primaryLangs = map share_language (take 3 topLangs);
          secondaryLangs = map share_language (take 3 (drop 3 topLangs));
          stack = \<lparr>primary = (if detectedStacks \<noteq> [] then detectedStacks else primaryLangs),
                   secondary = secondaryLangs,
                   frameworks = frameworkSet scan,
                   tools = toolSet scan\<rparr>;
          depth = deriveStackDepth clk stack repos;
          age = calculateAccountAge clk (user_created_at user);
          projects = length repos;
          active = length (filter (\<lambda>r. isRecentlyActive clk (updated_at r)) repos);
          avgStars = (if repos = [] then NaN
                      else Num (of_int (foldl (\<lambda>sum r. sum + stargazers_count r) 0 repos)
                                / of_nat (length repos)))
      in \<lparr>techStack = stack, topLanguages = topLangs,
          experienceLevel = determineExperienceLevel age projects active avgStars,
          totalProjects = projects, activeProjects = active, accountAge = age, stackDepth = depth\<rparr>)"

subsection \<open>Activity Analyzer: \<open>calculateActivityMetrics\<close> and \<open>median\<close>\<close>

definition dayMs :: int where
  "dayMs = 1000 * 60 * 60 * 24"

definition diffDays :: "clock \<Rightarrow> int \<Rightarrow> int" where
  "diffDays clk date = Math_round (of_int (now clk - date) / of_int dayMs)"

text \<open>\<open>[...repos].sort((a, b) => b.updated_at - a.updated_at)\<close>: the stable sort, newest first.\<close>

definition sortedByUpdate :: "RepositoryWithLanguages list \<Rightarrow> RepositoryWithLanguages list" where
  "sortedByUpdate repos = sort_key (\<lambda>r. - updated_at r) repos"

text \<open>The loop over \<open>i < sortedByUpdate.length - 1\<close> pushing the gap of each consecutive pair.\<close>

fun intervals :: "RepositoryWithLanguages list \<Rightarrow> int list" where
  "intervals (current # next # rest) =
     Math_round (of_int \<bar>updated_at current - updated_at next\<bar> / of_int dayMs)
       # intervals (next # rest)"
| "intervals _ = []"

definition median :: "int list \<Rightarrow> int" where
  "median values =
     (if values = [] then 0
      else let sorted = sort values; mid = length sorted div 2
           in if length sorted mod 2 \<noteq> 0 then sorted ! mid
              else Math_round (of_int (sorted ! (mid - 1) + sorted ! mid) / 2))"

text \<open>
  \<open>sortedByUpdate[0]\<close> is read only after the guard \<open>!repos.length\<close> has returned for the
  empty list, so \<open>hd\<close> is applied to a non-empty list.
\<close>

definition calculateActivityMetrics :: "clock \<Rightarrow> RepositoryWithLanguages list \<Rightarrow> ActivityMetrics" where
  "calculateActivityMetrics clk repos =
     (if repos = [] then
        \<lparr>recentPushes = 0, activeLast30Days = 0, activeLast90Days = 0,
         medianUpdateInterval = 90, longestQuietStreak = 0, velocityScore = 0\<rparr>
      else
        let sorted = sortedByUpdate repos;
            ivs = intervals sorted;
            pushes = int (length (filter (\<lambda>repo. diffDays clk (updated_at repo) \<le> 14) sorted));
            active30 = int (length (filter (\<lambda>repo. diffDays clk (updated_at repo) \<le> 30) sorted));
            active90 = int (length (filter (\<lambda>repo. diffDays clk (updated_at repo) \<le> 90) sorted));
            medianInterval = (if ivs \<noteq> [] then median ivs else diffDays clk (updated_at (hd sorted)));
            quiet = (if ivs \<noteq> [] then fold max ivs (diffDays clk (updated_at (hd sorted)))
                     else diffDays clk (updated_at (hd sorted)));
            velocityBase = active30 * 12 + active90 * 6 + pushes * 16;
            velocityPenalty = max 0 (min 30 ((quiet div 30) * 8))
        in \<lparr>recentPushes = pushes, activeLast30Days = active30, activeLast90Days = active90,
            medianUpdateInterval = medianInterval, longestQuietStreak = quiet,
            velocityScore = max 5 (min 100 (velocityBase - velocityPenalty))\<rparr>)"

subsection \<open>Highlight Selector: \<open>extractRepositoryHighlights\<close>\<close>

text \<open>The array \<open>highlights\<close> and the set \<open>seen\<close>, which the closure \<open>addHighlight\<close> updates.\<close>

record HighlightState =
  highlights :: "RepositoryHighlight list"
  seen :: "string list"

definition addHighlight :: "RepositoryWithLanguages option \<Rightarrow> string \<Rightarrow> HighlightState \<Rightarrow> HighlightState" where
  "addHighlight repo why st =
     (case repo of
        None \<Rightarrow> st
      | Some r \<Rightarrow>
          if name r \<in> set (seen st) then st
          else \<lparr>highlights = highlights st @
                   [\<lparr>h_name = name r, h_description = description r, stars = stargazers_count r,
                     forks = forks_count r, primaryLanguage = language r, lastUpdated = updated_at r,
                     createdAt = created_at r, h_topics = topics r, url = html_url r, reason = why\<rparr>],
                seen = setAdd (seen st) (name r)\<rparr>)"

definition byStars :: "RepositoryWithLanguages list \<Rightarrow> RepositoryWithLanguages list" where
  "byStars repos = sort_key (\<lambda>r. - stargazers_count r) repos"

text \<open>The predicate of \<open>byStars.find\<close> that selects the repository aligned with the stack.\<close>

definition stackAligned :: "string list \<Rightarrow> RepositoryWithLanguages \<Rightarrow> bool" where
  "stackAligned priorityLanguages repo =
     list_ex (\<lambda>lang.
        toLowerCase (case language repo of None \<Rightarrow> [] | Some l \<Rightarrow> l) = toLowerCase lang \<or>
        list_ex (\<lambda>key. toLowerCase key = toLowerCase lang)
          (map fst (case languageStats repo of None \<Rightarrow> [] | Some stats \<Rightarrow> stats)))
       priorityLanguages"

text \<open>
  The loop \<open>while (highlights.length < Math.min(3, repos.length))\<close> with its counter
  \<open>index\<close> and its \<open>break\<close>.
\<close>

function fillPopular ::
  "nat \<Rightarrow> RepositoryWithLanguages list \<Rightarrow> nat \<Rightarrow> HighlightState \<Rightarrow> HighlightState" where
  "fillPopular limit ranked index st =
     (if length (highlights st) < limit
      then if Suc index \<ge> length ranked
           then addHighlight (nthOpt ranked index) ''Popular'' st
           else fillPopular limit ranked (Suc index) (addHighlight (nthOpt ranked index) ''Popular'' st)
      else st)"
  by pat_completeness auto
termination
  by (relation "measure (\<lambda>(limit, ranked, index, st). length ranked - index)") auto

definition extractRepositoryHighlights ::
  "RepositoryWithLanguages list \<Rightarrow> string list \<Rightarrow> RepositoryHighlight list" where
  "extractRepositoryHighlights repos priorityLanguages =
     (if repos = [] then []
      else
        let st0 = \<lparr>highlights = [], seen = []\<rparr>;
            st1 = addHighlight (nthOpt (byStars repos) 0) ''Top starred'' st0;
            recentStandout = (case find (\<lambda>repo. stargazers_count repo \<ge> 5) (sortedByUpdate repos) of
                                Some r \<Rightarrow> Some r
                              | None \<Rightarrow> nthOpt (sortedByUpdate repos) 0);
            st2 = addHighlight recentStandout ''Recent'' st1;
            st3 = addHighlight (find (stackAligned priorityLanguages) (byStars repos)) ''Core stack'' st2
        in highlights (fillPopular (min 3 (length repos)) (byStars repos) 0 st3))"

subsection \<open>Forecast Engine: \<open>predictFuture\<close>\<close>

text \<open>
  The four locals \<open>growthAreas\<close>, \<open>skillsToLearn\<close>, \<open>careerPath\<close> and \<open>marketDemand\<close> are
  the fields of the record that the function returns; each \<open>if\<close> block of the source is a
  function on that record, applied in the order of the source.
\<close>

definition velocityRule :: "ActivityMetrics \<Rightarrow> QualitySignals \<Rightarrow> FuturePrediction \<Rightarrow> FuturePrediction" where
  "velocityRule activity quality st =
     (if velocityScore activity \<ge> 70 \<or> automation quality = AutomationAdvanced
      then st\<lparr>marketDemand := VeryHigh\<rparr>
      else if velocityScore activity \<ge> 50 then st\<lparr>marketDemand := High\<rparr>
      else st)"

definition webRule :: "string list \<Rightarrow> FuturePrediction \<Rightarrow> FuturePrediction" where
  "webRule prim st =
     (if ''JavaScript'' \<in> set prim \<or> ''TypeScript'' \<in> set prim
      then st\<lparr>growthAreas := growthAreas st @ [''Web3 and Blockchain Development'', ''Progressive Web Apps''],
              skillsToLearn := skillsToLearn st @ [''WebAssembly'', ''GraphQL'', ''TypeScript (if not already)'']\<rparr>
      else st)"

definition pythonRule :: "string list \<Rightarrow> FuturePrediction \<Rightarrow> FuturePrediction" where
  "pythonRule prim st =
     (if ''Python'' \<in> set prim
      then st\<lparr>growthAreas := growthAreas st @ [''AI and Machine Learning'', ''Data Engineering''],
              skillsToLearn := skillsToLearn st @ [''TensorFlow/PyTorch'', ''Apache Spark'', ''MLOps''],
              marketDemand := (if marketDemand st = VeryHigh then VeryHigh else High)\<rparr>
      else st)"

definition containerRule :: "string list \<Rightarrow> FuturePrediction \<Rightarrow> FuturePrediction" where
  "containerRule tls st =
     (if ''Docker'' \<in> set tls \<or> ''Kubernetes'' \<in> set tls
      then st\<lparr>growthAreas := growthAreas st @ [''Cloud Native Development'', ''Platform Engineering''],
              skillsToLearn := skillsToLearn st @ [''Service Mesh (Istio)'', ''GitOps (ArgoCD)'', ''eBPF''],
              marketDemand := VeryHigh\<rparr>
      else st)"

definition frontendRule :: "string list \<Rightarrow> FuturePrediction \<Rightarrow> FuturePrediction" where
  "frontendRule fws st =
     (if list_ex (\<lambda>f. f \<in> set [''React'', ''Vue'', ''Angular'']) fws
      then st\<lparr>growthAreas := growthAreas st @ [''Frontend Architecture''],
              skillsToLearn := skillsToLearn st @ [''Micro-frontends'', ''Server Components'', ''Edge Computing''],
              marketDemand := (if marketDemand st \<noteq> VeryHigh then High else marketDemand st)\<rparr>
      else st)"

definition universalGrowth :: "FuturePrediction \<Rightarrow> FuturePrediction" where
  "universalGrowth st =
     (if growthAreas st = []
      then st\<lparr>growthAreas := growthAreas st @ [''Cloud Computing'', ''DevOps'', ''Automation'']\<rparr>
      else st)"

definition careerRule :: "ExperienceLevel \<Rightarrow> FuturePrediction \<Rightarrow> FuturePrediction" where
  "careerRule level st =
     (if level = Beginner
      then st\<lparr>careerPath := careerPath st @
                 [''Junior Developer (0-2 years)'', ''Mid-level Developer (2-4 years)'',
                  ''Senior Developer (4-7 years)'']\<rparr>
      else if level = Intermediate
      then st\<lparr>careerPath := careerPath st @
                 [''Senior Developer (current)'', ''Tech Lead / Staff Engineer (2-3 years)'',
                  ''Principal Engineer / Architect (5+ years)'']\<rparr>
      else st\<lparr>careerPath := careerPath st @
                 [''Tech Lead / Staff Engineer (current)'', ''Principal Engineer (2-3 years)'',
                  ''Distinguished Engineer / CTO (5+ years)'']\<rparr>)"

definition universalSkills :: "FuturePrediction \<Rightarrow> FuturePrediction" where
  "universalSkills st =
     (if ''System Design'' \<notin> set (skillsToLearn st)
      then st\<lparr>skillsToLearn := skillsToLearn st @
                 [''System Design'', ''Cloud Architecture'', ''Security Best Practices'']\<rparr>
      else st)"

definition predictFuture :: "SkillAnalysis \<Rightarrow> QualitySignals \<Rightarrow> ActivityMetrics \<Rightarrow> FuturePrediction" where
  "predictFuture skillAnalysis quality activity =
     (let stack = techStack skillAnalysis;
          st0 = \<lparr>growthAreas = [], skillsToLearn = [], careerPath = [], marketDemand = Medium\<rparr>;
          st1 = velocityRule activity quality st0;
          st2 = webRule (primary stack) st1;
          st3 = pythonRule (primary stack) st2;
          st4 = containerRule (tools stack) st3;
          st5 = frontendRule (frameworks stack) st4;
          st6 = universalGrowth st5;
          st7 = careerRule (experienceLevel skillAnalysis) st6;
          st8 = universalSkills st7
      in \<lparr>growthAreas = setFrom (growthAreas st8), skillsToLearn = setFrom (skillsToLearn st8),
          careerPath = careerPath st8, marketDemand = marketDemand st8\<rparr>)"

text \<open>The order of the demand labels, from \<open>Low\<close> to \<open>Very High\<close>.\<close>

fun demandRank :: "MarketDemand \<Rightarrow> nat" where
  "demandRank Low = 0"
| "demandRank Medium = 1"
| "demandRank High = 2"
| "demandRank VeryHigh = 3"

subsection \<open>The specification's wording of the activity statistics\<close>

text \<open>
  The day gaps of the consecutive pairs of a list of timestamps that is sorted descending.
\<close>

definition spec_gaps :: "int list \<Rightarrow> int list" where
  "spec_gaps ts =
     map (\<lambda>i. Math_round (of_int (ts ! i - ts ! Suc i) / of_int dayMs)) [0..<length ts - 1]"

text \<open>
  The median of a non-empty list of gaps: the middle value for an odd count, the average of
  the two middle values rounded to the nearest integer (a half upwards) for an even count.
\<close>

definition spec_median :: "int list \<Rightarrow> int" where
  "spec_median gaps =
     (let s = sort gaps; n = length gaps
      in if odd n then s ! (n div 2) else (s ! (n div 2 - 1) + s ! (n div 2) + 1) div 2)"

text \<open>
  The longest quiet streak as the specification words it: the maximum of all gaps and the
  days since the update of the oldest repository.
\<close>

definition claimed_longestQuietStreak :: "clock \<Rightarrow> RepositoryWithLanguages list \<Rightarrow> int" where
  "claimed_longestQuietStreak clk repos =
     Max (insert (diffDays clk (Min (set (map updated_at repos))))
            (set (spec_gaps (rev (sort (map updated_at repos))))))"

text \<open>
  The sum of the percentages of a list of language shares (\<open>NaN\<close> if one of them is), and
  the specification's test that it is 100 within 0.01.
\<close>

fun jsAdd :: "jsnum \<Rightarrow> jsnum \<Rightarrow> jsnum" where
  "jsAdd (Num a) (Num b) = Num (a + b)"
| "jsAdd _ _ = NaN"

definition percentageSum :: "LanguageShare list \<Rightarrow> jsnum" where
  "percentageSum shares = foldl jsAdd (Num 0) (map percentage shares)"

definition about100 :: "jsnum \<Rightarrow> bool" where
  "about100 x = (case x of Num q \<Rightarrow> \<bar>q - 100\<bar> \<le> 1 / 100 | NaN \<Rightarrow> False)"

text \<open>The languages of a repository list and the sum of all its byte counts.\<close>

definition allLanguageStats :: "RepositoryWithLanguages list \<Rightarrow> (string \<times> nat) list" where
  "allLanguageStats repos =
     concat (map (\<lambda>repo. case languageStats repo of None \<Rightarrow> [] | Some stats \<Rightarrow> stats) repos)"

text \<open>
  The invariant of the highlight selector: \<open>seen\<close> holds exactly the names of the
  highlights, no name occurs twice, and every name is the name of an input repository.
\<close>

definition highlightInv :: "RepositoryWithLanguages list \<Rightarrow> HighlightState \<Rightarrow> bool" where
  "highlightInv repos st =
     (set (seen st) = set (map h_name (highlights st)) \<and>
      distinct (map h_name (highlights st)) \<and>
      set (map h_name (highlights st)) \<subseteq> set (map name repos))"

subsection \<open>Example inputs\<close>

definition repoAt :: "string \<Rightarrow> int \<Rightarrow> int \<Rightarrow> RepositoryWithLanguages" where
  "repoAt n starCount t =
     \<lparr>name = n, description = None, language = None, stargazers_count = starCount,
      forks_count = 0, updated_at = t, created_at = t, html_url = [], topics = [],
      languageStats = None\<rparr>"

definition clockAt :: "int \<Rightarrow> clock" where
  "clockAt t = \<lparr>now = t, recentCutoff = t - 365 * dayMs, sixMonthsAgo = t - 182 * dayMs\<rparr>"

definition skillsWith :: "string list \<Rightarrow> string list \<Rightarrow> string list \<Rightarrow> SkillAnalysis" where
  "skillsWith prim fws tls =
     \<lparr>techStack = \<lparr>primary = prim, secondary = [], frameworks = fws, tools = tls\<rparr>,
      topLanguages = [], experienceLevel = Beginner, totalProjects = 0, activeProjects = 0,
      accountAge = 0, stackDepth = \<lparr>core = [], supporting = [], emerging = []\<rparr>\<rparr>"

definition qualityWith :: "Automation \<Rightarrow> QualitySignals" where
  "qualityWith a =
     \<lparr>testing = TestingSparse, automation = a, documentation = DocumentationSparse,
      releaseCadence = AdHoc, quality_notes = []\<rparr>"

definition activityWith :: "int \<Rightarrow> ActivityMetrics" where
  "activityWith v =
     \<lparr>recentPushes = 0, activeLast30Days = 0, activeLast90Days = 0, medianUpdateInterval = 90,
      longestQuietStreak = 0, velocityScore = v\<rparr>"

section \<open>Properties\<close>

subsection \<open>Rounding\<close>

lemma Math_round_div:
  assumes "0 < b"
  shows "Math_round (of_int a / of_int b) = (2 * a + b) div (2 * b)"
proof -
  have "(of_int a / of_int b + 1 / 2 :: rat) = of_int (2 * a + b) / of_int (2 * b)"
    using assms by (simp add: field_simps)
  then show ?thesis
    unfolding Math_round_def by (simp only: floor_divide_of_int_eq)
qed

lemma Math_round_of_int: "Math_round (of_int n) = n"
  using Math_round_div [of 1 n] by simp

lemma Math_round_numeral: "Math_round (numeral k) = numeral k"
  using Math_round_of_int [of "numeral k"] by simp

lemma Math_round_half: "Math_round (of_int a / 2) = (a + 1) div 2"
  using Math_round_div [of 2 a] by simp

lemma diffDays_eq: "diffDays clk t = (2 * (now clk - t) + dayMs) div (2 * dayMs)"
  unfolding diffDays_def by (rule Math_round_div) (simp add: dayMs_def)

subsection \<open>Activity Analyzer\<close>

lemma median_spec_median: "values \<noteq> [] \<Longrightarrow> median values = spec_median values"
  by (simp add: median_def spec_median_def Let_def Math_round_half odd_iff_mod_2_eq_one
      flip: of_int_add)

text \<open>The fields of the result for a non-empty list, without the surrounding record.\<close>

lemma medianUpdateInterval_nonempty:
  "repos \<noteq> [] \<Longrightarrow> medianUpdateInterval (calculateActivityMetrics clk repos) =
     (if intervals (sortedByUpdate repos) \<noteq> [] then median (intervals (sortedByUpdate repos))
      else diffDays clk (updated_at (hd (sortedByUpdate repos))))"
  unfolding calculateActivityMetrics_def Let_def by (simp only: if_False ActivityMetrics.simps)

lemma longestQuietStreak_nonempty:
  "repos \<noteq> [] \<Longrightarrow> longestQuietStreak (calculateActivityMetrics clk repos) =
     (if intervals (sortedByUpdate repos) \<noteq> []
      then fold max (intervals (sortedByUpdate repos)) (diffDays clk (updated_at (hd (sortedByUpdate repos))))
      else diffDays clk (updated_at (hd (sortedByUpdate repos))))"
  unfolding calculateActivityMetrics_def Let_def by (simp only: if_False ActivityMetrics.simps)

lemma velocityScore_clamped:
  "repos \<noteq> [] \<Longrightarrow> \<exists>x. velocityScore (calculateActivityMetrics clk repos) = max 5 (min 100 x)"
  unfolding calculateActivityMetrics_def Let_def by (simp only: if_False ActivityMetrics.simps) blast

lemma clamp_5_100: "5 \<le> max 5 (min 100 (x::int)) \<and> max 5 (min 100 x) \<le> 100"
  by simp

text \<open>The stable sort by descending timestamp lists the timestamps in descending order.\<close>

lemma map_updated_at_sortedByUpdate:
  "map updated_at (sortedByUpdate repos) = rev (sort (map updated_at repos))"
proof -
  let ?ys = "rev (map updated_at (sortedByUpdate repos))"
  have "sorted (map (\<lambda>r. - updated_at r) (sortedByUpdate repos))"
    unfolding sortedByUpdate_def by (rule sorted_sort_key)
  then have "sorted ?ys"
    by (simp add: sorted_map sorted_wrt_rev sorted_wrt_map)
  moreover have "mset ?ys = mset (map updated_at repos)"
    by (simp add: sortedByUpdate_def)
  ultimately have "sort (map updated_at repos) = ?ys"
    by (rule properties_for_sort [rotated])
  then show ?thesis by simp
qed

lemma length_intervals: "length (intervals rs) = length rs - 1"
  by (induction rs rule: intervals.induct) simp_all

lemma nth_intervals:
  "i < length rs - 1 \<Longrightarrow>
   intervals rs ! i =
     Math_round (of_int \<bar>updated_at (rs ! i) - updated_at (rs ! Suc i)\<bar> / of_int dayMs)"
proof (induction rs arbitrary: i rule: intervals.induct)
  case (1 current "next" rest)
  then show ?case by (cases i) simp_all
qed simp_all

lemma rev_sort_antimono:
  assumes "Suc i < length xs"
  shows "rev (sort xs) ! Suc i \<le> rev (sort (xs :: int list)) ! i"
proof -
  have "sorted_wrt (\<lambda>x y. y \<le> x) (rev (sort xs))"
    by (simp add: sorted_wrt_rev)
  then show ?thesis
    using assms by (simp add: sorted_wrt_iff_nth_less)
qed

lemma intervals_sortedByUpdate:
  "intervals (sortedByUpdate repos) = spec_gaps (rev (sort (map updated_at repos)))"
proof (rule nth_equalityI)
  show "length (intervals (sortedByUpdate repos)) = length (spec_gaps (rev (sort (map updated_at repos))))"
    by (simp add: length_intervals spec_gaps_def sortedByUpdate_def)
next
  fix i assume "i < length (intervals (sortedByUpdate repos))"
  then have i: "i < length repos - 1"
    by (simp add: length_intervals sortedByUpdate_def)
  let ?ts = "rev (sort (map updated_at repos))"
  have len: "length (sortedByUpdate repos) = length repos"
    by (simp add: sortedByUpdate_def)
  have a: "updated_at (sortedByUpdate repos ! i) = ?ts ! i"
    using i len by (metis map_updated_at_sortedByUpdate nth_map less_diff_conv Suc_eq_plus1 Suc_lessD)
  have b: "updated_at (sortedByUpdate repos ! Suc i) = ?ts ! Suc i"
    using i len by (metis map_updated_at_sortedByUpdate nth_map less_diff_conv Suc_eq_plus1)
  have "?ts ! Suc i \<le> ?ts ! i"
    using i by (intro rev_sort_antimono) simp
  then have "\<bar>?ts ! i - ?ts ! Suc i\<bar> = ?ts ! i - ?ts ! Suc i" by simp
  then show "intervals (sortedByUpdate repos) ! i = spec_gaps ?ts ! i"
    using i by (simp add: nth_intervals len a b spec_gaps_def)
qed

lemma sorted_le_last: "sorted ys \<Longrightarrow> y \<in> set ys \<Longrightarrow> y \<le> last (ys :: int list)"
  by (induction ys) auto

lemma last_sort_Max: "xs \<noteq> [] \<Longrightarrow> last (sort xs) = Max (set (xs :: int list))"
proof -
  assume ne: "xs \<noteq> []"
  then have ne': "sort xs \<noteq> []" by (metis length_sort length_0_conv)
  have "Max (set (sort xs)) = last (sort xs)"
  proof (rule Max_eqI)
    show "finite (set (sort xs))" by simp
    show "last (sort xs) \<in> set (sort xs)" using ne' by (rule last_in_set)
    fix y assume "y \<in> set (sort xs)"
    then show "y \<le> last (sort xs)" by (intro sorted_le_last) simp_all
  qed
  then show ?thesis by simp
qed

text \<open>The head of the sorted list is a repository with the latest update.\<close>

lemma updated_at_hd_sortedByUpdate:
  assumes "repos \<noteq> []"
  shows "updated_at (hd (sortedByUpdate repos)) = Max (set (map updated_at repos))"
proof -
  have ne: "sortedByUpdate repos \<noteq> []"
    using assms by (metis length_sort length_0_conv sortedByUpdate_def)
  then have "updated_at (hd (sortedByUpdate repos)) = hd (map updated_at (sortedByUpdate repos))"
    by (simp add: hd_map)
  also have "\<dots> = last (sort (map updated_at repos))"
    using assms by (simp add: map_updated_at_sortedByUpdate hd_rev)
  also have "\<dots> = Max (set (map updated_at repos))"
    using assms by (intro last_sort_Max) simp
  finally show ?thesis .
qed

lemma fold_max_Max: "fold max xs (x :: int) = Max (insert x (set xs))"
  using Max.set_eq_fold [of x xs] by simp

text \<open>Two repositories updated 10 and 100 days before the clock reading, in either order.\<close>

lemma scenario_10_100:
  assumes "updated_at r1 = now clk - 10 * dayMs" and "updated_at r2 = now clk - 100 * dayMs"
  shows "medianUpdateInterval (calculateActivityMetrics clk [r1, r2]) = 90"
    and "longestQuietStreak (calculateActivityMetrics clk [r1, r2]) = 90"
    and "medianUpdateInterval (calculateActivityMetrics clk [r2, r1]) = 90"
    and "longestQuietStreak (calculateActivityMetrics clk [r2, r1]) = 90"
proof -
  have s1: "sortedByUpdate [r1, r2] = [r1, r2]" and s2: "sortedByUpdate [r2, r1] = [r1, r2]"
    using assms by (simp_all add: sortedByUpdate_def dayMs_def)
  have "\<bar>updated_at r1 - updated_at r2\<bar> = 90 * dayMs"
    using assms by (simp add: dayMs_def)
  then have iv: "intervals [r1, r2] = [90]"
    by (simp add: Math_round_numeral dayMs_def)
  have d: "diffDays clk (updated_at r1) = 10"
    using assms by (simp add: diffDays_eq dayMs_def)
  have ne1: "[r1, r2] \<noteq> []" and ne2: "[r2, r1] \<noteq> []"
    by simp_all
  show "medianUpdateInterval (calculateActivityMetrics clk [r1, r2]) = 90"
    unfolding medianUpdateInterval_nonempty [OF ne1] s1 iv by (simp add: median_def)
  show "medianUpdateInterval (calculateActivityMetrics clk [r2, r1]) = 90"
    unfolding medianUpdateInterval_nonempty [OF ne2] s2 iv by (simp add: median_def)
  show "longestQuietStreak (calculateActivityMetrics clk [r1, r2]) = 90"
    unfolding longestQuietStreak_nonempty [OF ne1] s1 iv by (simp add: d)
  show "longestQuietStreak (calculateActivityMetrics clk [r2, r1]) = 90"
    unfolding longestQuietStreak_nonempty [OF ne2] s2 iv by (simp add: d)
qed

text \<open>
  C3. For every non-empty repository list the velocity score lies in the closed interval
  from 5 to 100; for the empty list the analyzer returns the default record (all counts 0,
  median interval 90, longest quiet streak 0, velocity 0). The embedding has no failing
  branch: the only partial read, \<open>sortedByUpdate[0]\<close>, happens behind the guard.
\<close>

theorem velocityScore_bounds:
  "(repos \<noteq> [] \<longrightarrow>
      5 \<le> velocityScore (calculateActivityMetrics clk repos) \<and>
      velocityScore (calculateActivityMetrics clk repos) \<le> 100) \<and>
   calculateActivityMetrics clk [] =
     \<lparr>recentPushes = 0, activeLast30Days = 0, activeLast90Days = 0,
      medianUpdateInterval = 90, longestQuietStreak = 0, velocityScore = 0\<rparr>"
proof (intro conjI impI)
  assume ne: "repos \<noteq> []"
  from velocityScore_clamped [OF ne] obtain x
    where x: "velocityScore (calculateActivityMetrics clk repos) = max 5 (min 100 x)" by blast
  show "5 \<le> velocityScore (calculateActivityMetrics clk repos)"
    unfolding x using clamp_5_100 [of x] by blast
  show "velocityScore (calculateActivityMetrics clk repos) \<le> 100"
    unfolding x using clamp_5_100 [of x] by blast
next
  show "calculateActivityMetrics clk [] =
     \<lparr>recentPushes = 0, activeLast30Days = 0, activeLast90Days = 0,
      medianUpdateInterval = 90, longestQuietStreak = 0, velocityScore = 0\<rparr>"
    unfolding calculateActivityMetrics_def by (simp only: simp_thms if_True)
qed

theorem velocityScore_bounds_witness:
  "[repoAt ''a'' 0 (190 * dayMs)] \<noteq> [] \<and>
   5 \<le> velocityScore (calculateActivityMetrics (clockAt (200 * dayMs)) [repoAt ''a'' 0 (190 * dayMs)]) \<and>
   velocityScore (calculateActivityMetrics (clockAt (200 * dayMs)) [repoAt ''a'' 0 (190 * dayMs)]) \<le> 100"
  using velocityScore_bounds [of "[repoAt ''a'' 0 (190 * dayMs)]" "clockAt (200 * dayMs)"]
  by simp

text \<open>
  C4, as the code has it. For every non-empty repository list the longest quiet streak is
  the maximum of all consecutive-pair day gaps (over the update timestamps sorted
  descending) and the days since the update of the most recently updated repository, the
  head of the sorted list; for a single repository it is that repository's own days since
  its update.
\<close>

theorem longestQuietStreak_latest:
  "(repos \<noteq> [] \<longrightarrow>
      longestQuietStreak (calculateActivityMetrics clk repos) =
        Max (insert (diffDays clk (Max (set (map updated_at repos))))
               (set (spec_gaps (rev (sort (map updated_at repos))))))) \<and>
   longestQuietStreak (calculateActivityMetrics clk [r]) = diffDays clk (updated_at r)"
proof (intro conjI impI)
  assume ne: "repos \<noteq> []"
  show "longestQuietStreak (calculateActivityMetrics clk repos) =
        Max (insert (diffDays clk (Max (set (map updated_at repos))))
               (set (spec_gaps (rev (sort (map updated_at repos))))))"
    unfolding longestQuietStreak_nonempty [OF ne] intervals_sortedByUpdate
      updated_at_hd_sortedByUpdate [OF ne] fold_max_Max
    by simp
next
  show "longestQuietStreak (calculateActivityMetrics clk [r]) = diffDays clk (updated_at r)"
    by (simp add: longestQuietStreak_nonempty sortedByUpdate_def)
qed

theorem longestQuietStreak_latest_witness:
  "[repoAt ''a'' 0 (190 * dayMs), repoAt ''b'' 0 (100 * dayMs)] \<noteq> [] \<and>
   longestQuietStreak (calculateActivityMetrics (clockAt (200 * dayMs))
     [repoAt ''a'' 0 (190 * dayMs), repoAt ''b'' 0 (100 * dayMs)]) = 90"
  using longestQuietStreak_latest [of "[repoAt ''a'' 0 (190 * dayMs), repoAt ''b'' 0 (100 * dayMs)]"
      "clockAt (200 * dayMs)"]
  by (simp add: repoAt_def clockAt_def spec_gaps_def diffDays_eq Math_round_numeral dayMs_def)

text \<open>
  C4, as the specification words it (the oldest repository's days since its update), fails:
  with updates 10 and 100 days before the clock reading the code returns 90, the single
  gap, and the claimed maximum is 100.
\<close>

theorem longestQuietStreak_oldest_counterexample:
  "longestQuietStreak (calculateActivityMetrics (clockAt (200 * dayMs))
     [repoAt ''a'' 0 (190 * dayMs), repoAt ''b'' 0 (100 * dayMs)]) \<noteq>
   claimed_longestQuietStreak (clockAt (200 * dayMs))
     [repoAt ''a'' 0 (190 * dayMs), repoAt ''b'' 0 (100 * dayMs)]"
proof -
  have "longestQuietStreak (calculateActivityMetrics (clockAt (200 * dayMs))
     [repoAt ''a'' 0 (190 * dayMs), repoAt ''b'' 0 (100 * dayMs)]) = 90"
    by (rule scenario_10_100) (simp_all add: repoAt_def clockAt_def)
  moreover have "claimed_longestQuietStreak (clockAt (200 * dayMs))
     [repoAt ''a'' 0 (190 * dayMs), repoAt ''b'' 0 (100 * dayMs)] = 100"
    by (simp add: claimed_longestQuietStreak_def repoAt_def clockAt_def spec_gaps_def diffDays_eq
        Math_round_numeral dayMs_def)
  ultimately show ?thesis by simp
qed

text \<open>
  C5. For every non-empty repository list there are N - 1 gaps, the consecutive-pair day
  gaps of the update timestamps sorted descending; the median update interval is their
  median (the middle value for an odd count, the rounded average of the two middle values
  for an even count), and for a single repository, which has no gap, that repository's days
  since its update. Two repositories updated 10 and 100 days before the clock reading give
  a median update interval of 90 and a longest quiet streak of 90, in either input order.
\<close>

theorem medianUpdateInterval_spec:
  "(repos \<noteq> [] \<longrightarrow>
     (let gaps = spec_gaps (rev (sort (map updated_at repos)));
          m = medianUpdateInterval (calculateActivityMetrics clk repos)
      in length gaps = length repos - 1 \<and>
         (gaps = [] \<longrightarrow> m = diffDays clk (updated_at (hd repos))) \<and>
         (gaps \<noteq> [] \<longrightarrow> m = spec_median gaps))) \<and>
   (updated_at r1 = now clk - 10 * dayMs \<and> updated_at r2 = now clk - 100 * dayMs \<longrightarrow>
      medianUpdateInterval (calculateActivityMetrics clk [r1, r2]) = 90 \<and>
      longestQuietStreak (calculateActivityMetrics clk [r1, r2]) = 90 \<and>
      medianUpdateInterval (calculateActivityMetrics clk [r2, r1]) = 90 \<and>
      longestQuietStreak (calculateActivityMetrics clk [r2, r1]) = 90)"
proof (intro conjI impI)
  assume ne: "repos \<noteq> []"
  let ?gaps = "spec_gaps (rev (sort (map updated_at repos)))"
  let ?m = "medianUpdateInterval (calculateActivityMetrics clk repos)"
  have len: "length ?gaps = length repos - 1"
    by (simp add: spec_gaps_def)
  have single: "?m = diffDays clk (updated_at (hd repos))" if "?gaps = []"
  proof -
    from that len ne have "length repos = 1"
      by (cases repos) simp_all
    then obtain r where r: "repos = [r]"
      by (cases repos) simp_all
    show ?thesis
      unfolding r by (simp add: medianUpdateInterval_nonempty sortedByUpdate_def)
  qed
  have many: "?m = spec_median ?gaps" if "?gaps \<noteq> []"
    using that
    by (simp add: medianUpdateInterval_nonempty [OF ne] intervals_sortedByUpdate median_spec_median)
  show "let gaps = ?gaps; m = ?m
        in length gaps = length repos - 1 \<and>
           (gaps = [] \<longrightarrow> m = diffDays clk (updated_at (hd repos))) \<and>
           (gaps \<noteq> [] \<longrightarrow> m = spec_median gaps)"
    unfolding Let_def using len single many by blast
next
  assume a: "updated_at r1 = now clk - 10 * dayMs \<and> updated_at r2 = now clk - 100 * dayMs"
  then have a1: "updated_at r1 = now clk - 10 * dayMs" and a2: "updated_at r2 = now clk - 100 * dayMs"
    by simp_all
  show "medianUpdateInterval (calculateActivityMetrics clk [r1, r2]) = 90"
    and "longestQuietStreak (calculateActivityMetrics clk [r1, r2]) = 90"
    and "medianUpdateInterval (calculateActivityMetrics clk [r2, r1]) = 90"
    and "longestQuietStreak (calculateActivityMetrics clk [r2, r1]) = 90"
    by (rule scenario_10_100 [OF a1 a2])+
qed

theorem medianUpdateInterval_spec_witness:
  "medianUpdateInterval (calculateActivityMetrics (clockAt (200 * dayMs))
     [repoAt ''b'' 0 (100 * dayMs), repoAt ''c'' 0 (97 * dayMs), repoAt ''a'' 0 (190 * dayMs)]) = 47 \<and>
   medianUpdateInterval (calculateActivityMetrics (clockAt (200 * dayMs))
     [repoAt ''a'' 0 (190 * dayMs), repoAt ''b'' 0 (100 * dayMs)]) = 90 \<and>
   longestQuietStreak (calculateActivityMetrics (clockAt (200 * dayMs))
     [repoAt ''a'' 0 (190 * dayMs), repoAt ''b'' 0 (100 * dayMs)]) = 90"
  using medianUpdateInterval_spec [of
      "[repoAt ''b'' 0 (100 * dayMs), repoAt ''c'' 0 (97 * dayMs), repoAt ''a'' 0 (190 * dayMs)]"
      "clockAt (200 * dayMs)" "repoAt ''a'' 0 (190 * dayMs)" "repoAt ''b'' 0 (100 * dayMs)"]
  by (simp add: Let_def repoAt_def clockAt_def spec_gaps_def spec_median_def Math_round_numeral dayMs_def)

subsection \<open>Highlight Selector\<close>

lemma nthOpt_in_set: "nthOpt xs i = Some x \<Longrightarrow> x \<in> set xs"
  by (auto simp: nthOpt_def split: if_splits)

lemma find_in_set: "find P xs = Some x \<Longrightarrow> x \<in> set xs"
  by (auto simp: find_Some_iff)

lemma set_setAdd: "set (setAdd s x) = insert x (set s)"
  by (auto simp: setAdd_def)

lemma distinct_setAdd: "distinct s \<Longrightarrow> distinct (setAdd s x)"
  by (simp add: setAdd_def)

lemma addHighlight_inv:
  assumes "highlightInv repos st" and "\<And>r. repo = Some r \<Longrightarrow> r \<in> set repos"
  shows "highlightInv repos (addHighlight repo why st)"
proof (cases repo)
  case None
  with assms(1) show ?thesis by (simp add: addHighlight_def)
next
  case (Some r)
  with assms(2) have "r \<in> set repos" by simp
  then have "name r \<in> set (map name repos)" by simp
  with assms(1) Some show ?thesis
    by (auto simp: addHighlight_def highlightInv_def set_setAdd)
qed

lemma addHighlight_length:
  "length (highlights (addHighlight repo why st)) \<le> Suc (length (highlights st))"
  by (simp add: addHighlight_def split: option.splits)

lemma fillPopular_inv:
  "highlightInv repos st \<Longrightarrow> set ranked \<subseteq> set repos \<Longrightarrow>
   highlightInv repos (fillPopular limit ranked index st)"
proof (induction limit ranked index st rule: fillPopular.induct)
  case (1 limit ranked index st)
  have step: "highlightInv repos (addHighlight (nthOpt ranked index) ''Popular'' st)"
    using "1.prems" by (intro addHighlight_inv) (auto dest: nthOpt_in_set)
  show ?case
  proof (cases "length (highlights st) < limit")
    case False
    with "1.prems" show ?thesis by (subst fillPopular.simps) simp
  next
    case True
    show ?thesis
    proof (cases "Suc index \<ge> length ranked")
      case True
      with \<open>length (highlights st) < limit\<close> step show ?thesis
        by (subst fillPopular.simps) simp
    next
      case False
      with \<open>length (highlights st) < limit\<close> "1.IH" [OF _ _ step "1.prems"(2)] show ?thesis
        by (subst fillPopular.simps) simp
    qed
  qed
qed

lemma fillPopular_length:
  "length (highlights st) \<le> bound \<Longrightarrow> limit \<le> bound \<Longrightarrow>
   length (highlights (fillPopular limit ranked index st)) \<le> bound"
proof (induction limit ranked index st rule: fillPopular.induct)
  case (1 limit ranked index st)
  show ?case
  proof (cases "length (highlights st) < limit")
    case False
    with "1.prems" show ?thesis by (subst fillPopular.simps) simp
  next
    case True
    have "length (highlights (addHighlight (nthOpt ranked index) ''Popular'' st)) \<le> Suc (length (highlights st))"
      by (rule addHighlight_length)
    with True "1.prems" have step: "length (highlights (addHighlight (nthOpt ranked index) ''Popular'' st)) \<le> bound"
      by simp
    show ?thesis
    proof (cases "Suc index \<ge> length ranked")
      case True
      with \<open>length (highlights st) < limit\<close> step show ?thesis
        by (subst fillPopular.simps) simp
    next
      case False
      with \<open>length (highlights st) < limit\<close> "1.IH" [OF _ _ step "1.prems"(2)] show ?thesis
        by (subst fillPopular.simps) simp
    qed
  qed
qed

lemma highlightInv_length:
  assumes "highlightInv repos st"
  shows "length (highlights st) \<le> length repos"
proof -
  have "length (highlights st) = card (set (map h_name (highlights st)))"
    using assms by (metis distinct_card highlightInv_def length_map)
  also have "\<dots> \<le> card (set (map name repos))"
    using assms by (intro card_mono) (simp_all add: highlightInv_def)
  also have "\<dots> \<le> length (map name repos)"
    by (rule card_length)
  finally show ?thesis by simp
qed

text \<open>The state in which the loop of \<open>extractRepositoryHighlights\<close> ends.\<close>

lemma extractRepositoryHighlights_state:
  assumes "repos \<noteq> []"
  shows "\<exists>st. extractRepositoryHighlights repos priorityLanguages = highlights st \<and>
              highlightInv repos st \<and> length (highlights st) \<le> 3"
proof -
  let ?st0 = "\<lparr>highlights = [], seen = []\<rparr>"
  let ?st1 = "addHighlight (nthOpt (byStars repos) 0) ''Top starred'' ?st0"
  let ?recent = "case find (\<lambda>repo. stargazers_count repo \<ge> 5) (sortedByUpdate repos) of
                   Some r \<Rightarrow> Some r | None \<Rightarrow> nthOpt (sortedByUpdate repos) 0"
  let ?st2 = "addHighlight ?recent ''Recent'' ?st1"
  let ?st3 = "addHighlight (find (stackAligned priorityLanguages) (byStars repos)) ''Core stack'' ?st2"
  let ?st4 = "fillPopular (min 3 (length repos)) (byStars repos) 0 ?st3"
  have sets: "set (byStars repos) = set repos" "set (sortedByUpdate repos) = set repos"
    by (simp_all add: byStars_def sortedByUpdate_def)
  have i0: "highlightInv repos ?st0"
    by (simp add: highlightInv_def)
  have i1: "highlightInv repos ?st1"
    using i0 by (rule addHighlight_inv) (use sets in \<open>auto dest: nthOpt_in_set\<close>)
  have i2: "highlightInv repos ?st2"
    using i1 by (rule addHighlight_inv)
      (use sets in \<open>auto dest: nthOpt_in_set find_in_set split: option.splits\<close>)
  have i3: "highlightInv repos ?st3"
    using i2 by (rule addHighlight_inv) (use sets in \<open>auto dest: find_in_set\<close>)
  have i4: "highlightInv repos ?st4"
    using i3 by (rule fillPopular_inv) (simp add: sets)
  have "length (highlights ?st1) \<le> 1"
    using addHighlight_length [of "nthOpt (byStars repos) 0" "''Top starred''" ?st0] by simp
  then have "length (highlights ?st2) \<le> 2"
    using addHighlight_length [of ?recent "''Recent''" ?st1] by simp
  then have "length (highlights ?st3) \<le> 3"
    using addHighlight_length [of "find (stackAligned priorityLanguages) (byStars repos)" "''Core stack''" ?st2]
    by simp
  then have l4: "length (highlights ?st4) \<le> 3"
    by (rule fillPopular_length) simp
  have "extractRepositoryHighlights repos priorityLanguages = highlights ?st4"
    using assms unfolding extractRepositoryHighlights_def Let_def by (simp only: if_False)
  with i4 l4 show ?thesis by blast
qed

text \<open>
  C8. For every repository list and every list of priority languages, no two highlights
  have the same repository name, and there are at most min(3, number of repositories)
  highlights; for the empty repository list there is none.
\<close>

theorem highlights_unique_and_bounded:
  "distinct (map h_name (extractRepositoryHighlights repos priorityLanguages)) \<and>
   length (extractRepositoryHighlights repos priorityLanguages) \<le> min 3 (length repos) \<and>
   extractRepositoryHighlights [] priorityLanguages = []"
proof (cases "repos = []")
  case True
  then show ?thesis by (simp add: extractRepositoryHighlights_def)
next
  case False
  from extractRepositoryHighlights_state [OF False] obtain st
    where st: "extractRepositoryHighlights repos priorityLanguages = highlights st"
      and inv: "highlightInv repos st" and len: "length (highlights st) \<le> 3"
    by blast
  have "distinct (map h_name (highlights st))"
    using inv by (simp add: highlightInv_def)
  moreover have "length (highlights st) \<le> min 3 (length repos)"
    using highlightInv_length [OF inv] len by simp
  moreover have "extractRepositoryHighlights [] priorityLanguages = []"
    by (simp add: extractRepositoryHighlights_def)
  ultimately show ?thesis
    unfolding st by blast
qed

theorem highlights_unique_and_bounded_witness:
  "map h_name (extractRepositoryHighlights
     [repoAt ''a'' 10 (190 * dayMs), repoAt ''a'' 3 (100 * dayMs), repoAt ''c'' 7 (195 * dayMs),
      repoAt ''d'' 1 (50 * dayMs)] []) = [''a'', ''c'', ''d''] \<and>
   distinct (map h_name (extractRepositoryHighlights
     [repoAt ''a'' 10 (190 * dayMs), repoAt ''a'' 3 (100 * dayMs), repoAt ''c'' 7 (195 * dayMs),
      repoAt ''d'' 1 (50 * dayMs)] [])) \<and>
   length (extractRepositoryHighlights
     [repoAt ''a'' 10 (190 * dayMs), repoAt ''a'' 3 (100 * dayMs), repoAt ''c'' 7 (195 * dayMs),
      repoAt ''d'' 1 (50 * dayMs)] []) \<le> 3"
proof -
  have "map h_name (extractRepositoryHighlights
     [repoAt ''a'' 10 (190 * dayMs), repoAt ''a'' 3 (100 * dayMs), repoAt ''c'' 7 (195 * dayMs),
      repoAt ''d'' 1 (50 * dayMs)] []) = [''a'', ''c'', ''d'']"
    by code_simp
  then show ?thesis
    using highlights_unique_and_bounded [of
        "[repoAt ''a'' 10 (190 * dayMs), repoAt ''a'' 3 (100 * dayMs), repoAt ''c'' 7 (195 * dayMs),
          repoAt ''d'' 1 (50 * dayMs)]" "[]"]
    by simp
qed

subsection \<open>Forecast Engine\<close>

text \<open>What each block of \<open>predictFuture\<close> does to the demand label.\<close>

lemma marketDemand_velocityRule:
  "marketDemand (velocityRule activity quality st) =
     (if velocityScore activity \<ge> 70 \<or> automation quality = AutomationAdvanced then VeryHigh
      else if velocityScore activity \<ge> 50 then High else marketDemand st)"
  by (simp add: velocityRule_def)

lemma marketDemand_webRule: "marketDemand (webRule prim st) = marketDemand st"
  by (simp add: webRule_def)

lemma marketDemand_pythonRule:
  "marketDemand (pythonRule prim st) =
     (if ''Python'' \<in> set prim then (if marketDemand st = VeryHigh then VeryHigh else High)
      else marketDemand st)"
  by (simp add: pythonRule_def)

lemma marketDemand_containerRule:
  "marketDemand (containerRule tls st) =
     (if ''Docker'' \<in> set tls \<or> ''Kubernetes'' \<in> set tls then VeryHigh else marketDemand st)"
  by (simp add: containerRule_def)

lemma marketDemand_frontendRule:
  "marketDemand (frontendRule fws st) =
     (if list_ex (\<lambda>f. f \<in> set [''React'', ''Vue'', ''Angular'']) fws \<and> marketDemand st \<noteq> VeryHigh
      then High else marketDemand st)"
  by (simp add: frontendRule_def)

lemma marketDemand_universalGrowth: "marketDemand (universalGrowth st) = marketDemand st"
  by (simp add: universalGrowth_def)

lemma marketDemand_careerRule: "marketDemand (careerRule level st) = marketDemand st"
  by (simp add: careerRule_def)

lemma marketDemand_universalSkills: "marketDemand (universalSkills st) = marketDemand st"
  by (simp add: universalSkills_def)

lemmas marketDemand_rules =
  marketDemand_velocityRule marketDemand_webRule marketDemand_pythonRule marketDemand_containerRule
  marketDemand_frontendRule marketDemand_universalGrowth marketDemand_careerRule
  marketDemand_universalSkills

lemma marketDemand_predictFuture:
  "marketDemand (predictFuture skillAnalysis quality activity) =
     marketDemand
       (frontendRule (frameworks (techStack skillAnalysis))
          (containerRule (tools (techStack skillAnalysis))
             (pythonRule (primary (techStack skillAnalysis))
                (velocityRule activity quality
                   \<lparr>growthAreas = [], skillsToLearn = [], careerPath = [], marketDemand = Medium\<rparr>))))"
  unfolding predictFuture_def Let_def
  by (simp only: FuturePrediction.simps marketDemand_universalSkills marketDemand_careerRule
      marketDemand_universalGrowth)
    (simp only: marketDemand_frontendRule marketDemand_containerRule marketDemand_pythonRule
      marketDemand_webRule)

lemma demandRank_step:
  "demandRank d \<le> demandRank (if c then VeryHigh else d)"
  "demandRank d \<le> demandRank (if c then (if d = VeryHigh then VeryHigh else High) else d)"
  "demandRank d \<le> demandRank (if c \<and> d \<noteq> VeryHigh then High else d)"
  by (cases d; simp)+

text \<open>
  C7. If the velocity score is at least 70 or the automation rating is Advanced, the
  returned demand is Very High; if the velocity score is at least 50, it is at least High;
  and no block after the first lowers the label: each of the seven later blocks returns a
  demand at least as high as the one it receives, so the returned demand is at least the
  one set by the velocity and automation block.
\<close>

theorem marketDemand_escalation:
  "(velocityScore activity \<ge> 70 \<or> automation quality = AutomationAdvanced \<longrightarrow>
      marketDemand (predictFuture skillAnalysis quality activity) = VeryHigh) \<and>
   (velocityScore activity \<ge> 50 \<longrightarrow>
      demandRank High \<le> demandRank (marketDemand (predictFuture skillAnalysis quality activity))) \<and>
   demandRank (marketDemand st) \<le> demandRank (marketDemand (webRule prim st)) \<and>
   demandRank (marketDemand st) \<le> demandRank (marketDemand (pythonRule prim st)) \<and>
   demandRank (marketDemand st) \<le> demandRank (marketDemand (containerRule tls st)) \<and>
   demandRank (marketDemand st) \<le> demandRank (marketDemand (frontendRule fws st)) \<and>
   demandRank (marketDemand st) \<le> demandRank (marketDemand (universalGrowth st)) \<and>
   demandRank (marketDemand st) \<le> demandRank (marketDemand (careerRule level st)) \<and>
   demandRank (marketDemand st) \<le> demandRank (marketDemand (universalSkills st)) \<and>
   demandRank (marketDemand (velocityRule activity quality
       \<lparr>growthAreas = [], skillsToLearn = [], careerPath = [], marketDemand = Medium\<rparr>))
     \<le> demandRank (marketDemand (predictFuture skillAnalysis quality activity))"
proof -
  let ?st1 = "velocityRule activity quality
       \<lparr>growthAreas = [], skillsToLearn = [], careerPath = [], marketDemand = Medium\<rparr>"
  let ?st3 = "pythonRule (primary (techStack skillAnalysis)) ?st1"
  let ?st4 = "containerRule (tools (techStack skillAnalysis)) ?st3"
  let ?st5 = "frontendRule (frameworks (techStack skillAnalysis)) ?st4"
  have steps: "demandRank (marketDemand s) \<le> demandRank (marketDemand (pythonRule p s))"
    "demandRank (marketDemand s) \<le> demandRank (marketDemand (containerRule t s))"
    "demandRank (marketDemand s) \<le> demandRank (marketDemand (frontendRule f s))" for s p t f
    unfolding marketDemand_rules by (rule demandRank_step)+
  have final: "marketDemand (predictFuture skillAnalysis quality activity) = marketDemand ?st5"
    by (rule marketDemand_predictFuture)
  have "demandRank (marketDemand ?st1) \<le> demandRank (marketDemand ?st3)"
    by (rule steps)
  also have "\<dots> \<le> demandRank (marketDemand ?st4)"
    by (rule steps)
  also have "\<dots> \<le> demandRank (marketDemand ?st5)"
    by (rule steps)
  finally have mono: "demandRank (marketDemand ?st1) \<le> demandRank (marketDemand ?st5)" .
  have very: "marketDemand ?st5 = VeryHigh"
    if "velocityScore activity \<ge> 70 \<or> automation quality = AutomationAdvanced"
  proof -
    from that have "demandRank (marketDemand ?st1) = 3"
      by (simp add: marketDemand_velocityRule)
    with mono have "3 \<le> demandRank (marketDemand ?st5)" by simp
    then show ?thesis by (cases "marketDemand ?st5") simp_all
  qed
  have high: "demandRank High \<le> demandRank (marketDemand ?st5)" if "velocityScore activity \<ge> 50"
  proof -
    from that have "2 \<le> demandRank (marketDemand ?st1)"
      by (simp add: marketDemand_velocityRule)
    with mono show ?thesis by simp
  qed
  show ?thesis
    unfolding final using very high mono steps
    by (simp add: marketDemand_webRule marketDemand_universalGrowth marketDemand_careerRule
        marketDemand_universalSkills)
qed

theorem marketDemand_escalation_witness:
  "velocityScore (activityWith 75) \<ge> 70 \<and>
   marketDemand (predictFuture (skillsWith [''Python''] [''React''] []) (qualityWith AutomationNone)
     (activityWith 75)) = VeryHigh \<and>
   velocityScore (activityWith 55) \<ge> 50 \<and>
   demandRank High \<le> demandRank (marketDemand
     (predictFuture (skillsWith [''Python''] [''React''] []) (qualityWith AutomationNone)
        (activityWith 55)))"
  using
    marketDemand_escalation [of "activityWith 75" "qualityWith AutomationNone"
      "skillsWith [''Python''] [''React''] []"]
    marketDemand_escalation [of "activityWith 55" "qualityWith AutomationNone"
      "skillsWith [''Python''] [''React''] []"]
  by (simp add: activityWith_def)

text \<open>
  C10. \<open>Low\<close> is a member of the declared enumeration, but no input makes
  \<open>predictFuture\<close> return it: the label starts at \<open>Medium\<close> and is only raised.
\<close>

theorem marketDemand_never_Low:
  "marketDemand (predictFuture skillAnalysis quality activity) \<noteq> Low"
proof -
  have "demandRank (marketDemand (velocityRule activity quality
       \<lparr>growthAreas = [], skillsToLearn = [], careerPath = [], marketDemand = Medium\<rparr>)) \<ge> 1"
    by (simp add: marketDemand_velocityRule)
  moreover have "demandRank (marketDemand (velocityRule activity quality
       \<lparr>growthAreas = [], skillsToLearn = [], careerPath = [], marketDemand = Medium\<rparr>))
     \<le> demandRank (marketDemand (predictFuture skillAnalysis quality activity))"
    unfolding marketDemand_predictFuture marketDemand_frontendRule marketDemand_containerRule
      marketDemand_pythonRule
    by (simp add: marketDemand_velocityRule)
  ultimately have "1 \<le> demandRank (marketDemand (predictFuture skillAnalysis quality activity))"
    by (rule order_trans)
  then show ?thesis
    by (cases "marketDemand (predictFuture skillAnalysis quality activity)") simp_all
qed

theorem marketDemand_never_Low_witness:
  "marketDemand (predictFuture (skillsWith [] [] []) (qualityWith AutomationNone) (activityWith 0))
     \<noteq> Low \<and>
   marketDemand (predictFuture (skillsWith [] [] []) (qualityWith AutomationNone) (activityWith 0))
     = Medium"
  using marketDemand_never_Low [of "skillsWith [] [] []" "qualityWith AutomationNone" "activityWith 0"]
  by (simp add: marketDemand_predictFuture marketDemand_rules skillsWith_def qualityWith_def
      activityWith_def)

end
